theory Spec2Isabelle
  imports Main "HOL-Library.Word"
begin

unbundle bit_operations_syntax

section \<open>Bytes, 32-bit fields and stdio streams\<close>

text \<open>
  The tools are C programs over \<open>uint8_t\<close> buffers and \<open>uint32_t\<close> table fields.
  File positions are C \<open>long\<close> values obtained from \<open>ftell\<close>; they are never negative
  on the paths modelled here and are kept as \<open>nat\<close> (a 64-bit \<open>long\<close> cannot overflow
  on a file position).  Every narrowing cast of the source, such as \<open>(uint8_t)(wpos >> 8)\<close> or
  \<open>(uint32_t)ftell(ofp)\<close>, is written out as a conversion to a word.
\<close>

type_synonym byte = "8 word"
type_synonym u32 = "32 word"

text \<open>\<open>buf[0] = (uint8_t)(w); buf[1] = (uint8_t)(w >> 8); ...\<close>\<close>

definition le32 :: "u32 \<Rightarrow> byte list" where
  "le32 w = [ucast w, ucast (drop_bit 8 w), ucast (drop_bit 16 w), ucast (drop_bit 24 w)]"

text \<open>\<open>buf[0] = (uint8_t)(w >> 24); ... buf[3] = (uint8_t)(w);\<close>\<close>

definition be32 :: "u32 \<Rightarrow> byte list" where
  "be32 w = [ucast (drop_bit 24 w), ucast (drop_bit 16 w), ucast (drop_bit 8 w), ucast w]"

text \<open>
  \<open>(buf[0]) | (buf[1] << 8) | (buf[2] << 16) | (buf[3] << 24)\<close>, applied by the source
  only to a buffer that a successful \<open>fread\<close> of four bytes has filled.
\<close>

definition rd_le32 :: "byte list \<Rightarrow> u32" where
  "rd_le32 buf = ucast (buf ! 0) OR push_bit 8 (ucast (buf ! 1))
                 OR push_bit 16 (ucast (buf ! 2)) OR push_bit 24 (ucast (buf ! 3))"

text \<open>\<open>(buf[3]) | (buf[2] << 8) | (buf[1] << 16) | (buf[0] << 24)\<close>\<close>

definition rd_be32 :: "byte list \<Rightarrow> u32" where
  "rd_be32 buf = ucast (buf ! 3) OR push_bit 8 (ucast (buf ! 2))
                 OR push_bit 16 (ucast (buf ! 1)) OR push_bit 24 (ucast (buf ! 0))"

text \<open>
  A stream opened for writing (\<open>"wb"\<close>): the bytes of the file so far and the position of
  the next write.  Seeking past the end is allowed; the gap reads as zero bytes once
  something is written behind it.
\<close>

record ostream =
  odata :: "byte list"
  opos :: nat

definition fseek_o :: "nat \<Rightarrow> ostream \<Rightarrow> ostream" where
  "fseek_o p s = s\<lparr>opos := p\<rparr>"

definition fwrite :: "byte list \<Rightarrow> ostream \<Rightarrow> ostream" where
  "fwrite bs s =
     (if bs = [] then s
      else let d = odata s @ replicate (opos s - length (odata s)) 0
           in s\<lparr>odata := take (opos s) d @ bs @ drop (opos s + length bs) d,
                opos := opos s + length bs\<rparr>)"

text \<open>
  A stream opened for reading (\<open>"rb"\<close>).  A read that cannot deliver all the bytes asked
  for is a short read; every caller in the source treats it as an error.
\<close>

record istream =
  idata :: "byte list"
  ipos :: nat

definition fseek_i :: "nat \<Rightarrow> istream \<Rightarrow> istream" where
  "fseek_i p s = s\<lparr>ipos := p\<rparr>"

definition fread :: "nat \<Rightarrow> istream \<Rightarrow> (byte list \<times> istream) option" where
  "fread n s =
     (if ipos s + n \<le> length (idata s)
      then Some (take n (drop (ipos s) (idata s)), s\<lparr>ipos := ipos s + n\<rparr>)
      else None)"

text \<open>
  \<open>copy_file\<close> (identical in afs.c, gsl.c and bmltool.c): 512-byte chunks, then the rest.
  Return codes -1 and -3 are the short reads.
\<close>

function copy_file :: "ostream \<Rightarrow> istream \<Rightarrow> nat \<Rightarrow> int \<times> ostream \<times> istream" where
  "copy_file dst src sz =
     (if sz > 512 then
        (case fread 512 src of
           None \<Rightarrow> (-1, dst, src)
         | Some (xbuf, src') \<Rightarrow> copy_file (fwrite xbuf dst) src' (sz - 512))
      else if sz \<noteq> 0 then
        (case fread sz src of
           None \<Rightarrow> (-3, dst, src)
         | Some (xbuf, src') \<Rightarrow> (0, fwrite xbuf dst, src'))
      else (0, dst, src))"
  by pat_completeness auto
termination
  by (relation "measure (\<lambda>(dst, src, sz). sz)") auto

text \<open>
  \<open>pad_file\<close> (identical in afs.c, gsl.c and bmltool.c):
  \<open>pos = (pos & ~(boundary - 1)) + boundary\<close>, then a zero byte written at \<open>pos - 1\<close>.
  The result is the new position and the stream.
\<close>

definition pad_file :: "ostream \<Rightarrow> int \<Rightarrow> nat \<times> ostream" where
  "pad_file fp boundary =
     (let pos = int (opos fp) in
      if boundary \<le> 0 then (nat pos, fp)
      else let pos' = (pos AND NOT (boundary - 1)) + boundary
           in (nat pos', fwrite [0] (fseek_o (nat (pos' - 1)) fp)))"

text \<open>
  The file system as the archive operations see it: the archive at the path \<open>fn\<close>, the
  temporary file made by \<open>mkstemp\<close>, and whether a descriptor or stream on it is still
  open.  The input files named on the command line are a read-only map from paths to
  contents.
\<close>

record fsys =
  archive :: "byte list option"
  tmpfile :: "byte list option"
  tmp_open :: bool

type_synonym disk = "string \<Rightarrow> byte list option"

text \<open>
  The calls whose failure the environment decides.  \<open>ScanIO\<close>, \<open>CopyIO\<close> and \<open>AddIO\<close> stand
  for an I/O error met inside a counting scan, a copying scan and \<open>add_files_to_*\<close>
  (a failed seek or write there, for which \<open>copy_file\<close> returns -2 or -4 and \<open>pad_file\<close>
  returns -1); the functions themselves are modelled without such errors.  \<open>fchmod\<close> and
  \<open>fclose\<close> before the rename are not listed: the source ignores their results.
\<close>

datatype io_step =
  Malloc | Mkstemp | Fdopen | HdrWrite | TableSeek | BackSeek | ScanIO | CopyIO | AddIO
  | HdrSeek | NewSeek | Rename

text \<open>\<open>fclose(ofp); unlink(tmpfn);\<close> (or \<open>close(fd); unlink(tmpfn);\<close>)\<close>

definition close_unlink :: "fsys \<Rightarrow> fsys" where
  "close_unlink fs = fs\<lparr>tmpfile := None, tmp_open := False\<rparr>"

text \<open>
  \<open>fclose(ofp); rename(tmpfn, fn); return 0;\<close>: the stream's bytes are the temporary file;
  the rename either replaces the archive or fails and leaves both files.
\<close>

definition close_rename :: "(io_step \<Rightarrow> bool) \<Rightarrow> ostream \<Rightarrow> fsys \<Rightarrow> fsys" where
  "close_rename ok ofp fs =
     (if ok Rename then fs\<lparr>archive := Some (odata ofp), tmpfile := None, tmp_open := False\<rparr>
      else fs\<lparr>tmpfile := Some (odata ofp), tmp_open := False\<rparr>)"

section \<open>AFS archives (afs.c)\<close>

text \<open>The eight bytes at the start of an archive: \<open>AFS\<close>, a NUL byte and the entry count.\<close>

definition afs_header :: "u32 \<Rightarrow> byte list" where
  "afs_header count = [0x41, 0x46, 0x53, 0x00] @ le32 count"

definition open_afs :: "byte list option \<Rightarrow> (istream \<times> u32) option" where
  "open_afs f =
     (case f of
        None \<Rightarrow> None
      | Some d \<Rightarrow>
          (case fread 4 \<lparr>idata = d, ipos = 0\<rparr> of
             None \<Rightarrow> None
           | Some (buf, fp) \<Rightarrow>
               if buf \<noteq> [0x41, 0x46, 0x53, 0x00] then None
               else (case fread 4 fp of
                       None \<Rightarrow> None
                     | Some (buf, fp) \<Rightarrow> Some (fp, rd_le32 buf))))"

text \<open>
  The loop of \<open>scan_afs\<close>.  The callback gets the stream positioned at the entry's payload,
  the index, the entry count, the size and the user data; it returns its code and the
  user data.
\<close>

function scan_afs_loop ::
  "(istream \<Rightarrow> u32 \<Rightarrow> u32 \<Rightarrow> u32 \<Rightarrow> 'd \<Rightarrow> int \<times> 'd) \<Rightarrow> istream \<Rightarrow> u32 \<Rightarrow> nat \<Rightarrow> 'd \<Rightarrow> int \<times> 'd"
where
  "scan_afs_loop p fp entries i d =
     (if i < unat entries then
        (case fread 4 fp of
           None \<Rightarrow> (-2, d)
         | Some (buf, fp1) \<Rightarrow>
             (case fread 4 fp1 of
                None \<Rightarrow> (-3, d)
              | Some (buf', fp2) \<Rightarrow>
                  (case p (fseek_i (unat (rd_le32 buf)) fp2) (word_of_nat i) entries
                          (rd_le32 buf') d of
                     (rc, d') \<Rightarrow>
                       if rc \<noteq> 0 then (-5, d')
                       else scan_afs_loop p (fseek_i (ipos fp2) fp2) entries (Suc i) d')))
      else (sint entries, d))"
  by pat_completeness auto
termination
  by (relation "measure (\<lambda>(p, fp, entries, i, d). unat entries - i)") auto

definition scan_afs ::
  "(istream \<Rightarrow> u32 \<Rightarrow> u32 \<Rightarrow> u32 \<Rightarrow> 'd \<Rightarrow> int \<times> 'd) \<Rightarrow> byte list option \<Rightarrow> 'd \<Rightarrow> int \<times> 'd"
where
  "scan_afs p f d =
     (case open_afs f of
        None \<Rightarrow> (-1, d)
      | Some (fp, entries) \<Rightarrow> scan_afs_loop p fp entries 0 d)"

text \<open>
  \<open>add_files_to_afs\<close>: one table row and one payload per input file.  The row is written
  at the stream's current position; the payload at \<open>wpos\<close>, followed by padding to 2048.
  The result is the code, the stream, and the values stored through \<open>rfpos\<close> and \<open>rwpos\<close>.
\<close>

fun add_files_to_afs ::
  "disk \<Rightarrow> ostream \<Rightarrow> nat \<Rightarrow> nat \<Rightarrow> string list \<Rightarrow> int \<times> ostream \<times> nat \<times> nat"
where
  "add_files_to_afs dk ofp fpos wpos [] = (0, ofp, fpos, wpos)"
| "add_files_to_afs dk ofp fpos wpos (f # files) =
     (case dk f of
        None \<Rightarrow> (-1, ofp, fpos, wpos)
      | Some content \<Rightarrow>
          (let sz = (word_of_nat (length content) :: u32);
               ofp1 = fwrite (le32 (word_of_nat wpos) @ le32 sz) ofp;
               fpos' = opos ofp1
           in case copy_file (fseek_o wpos ofp1) \<lparr>idata = content, ipos = 0\<rparr> (unat sz) of
                (rc, ofp2, ifp) \<Rightarrow>
                  if rc \<noteq> 0 then (-6, ofp2, fpos, wpos)
                  else (case pad_file ofp2 2048 of
                          (wpos', ofp3) \<Rightarrow>
                            add_files_to_afs dk (fseek_o fpos' ofp3) fpos' wpos' files)))"

text \<open>\<open>copy_file_cb\<close>: the callback of \<open>add_to_afs\<close>; the user data is the output stream.\<close>

definition copy_file_cb :: "istream \<Rightarrow> u32 \<Rightarrow> u32 \<Rightarrow> u32 \<Rightarrow> ostream \<Rightarrow> int \<times> ostream" where
  "copy_file_cb fp i cnt sz ofp =
     (let fpos = unat (push_bit 3 i :: u32) + 8;
          wpos = (if i = 0 then 0x80000 else (word_of_nat (opos ofp) :: u32));
          ofp1 = fwrite (le32 wpos @ le32 sz) (fseek_o fpos ofp)
      in case copy_file (fseek_o (unat wpos) ofp1) fp (unat sz) of
           (rc, ofp2, fp') \<Rightarrow>
             if rc \<noteq> 0 then (-4, ofp2)
             else (0, snd (pad_file ofp2 2048)))"





text \<open>
  \<open>create_afs\<close>.  \<open>count\<close> is the number of input files (\<open>argc - 4\<close>).  The result is the
  return value and the file system afterwards.
\<close>

definition create_afs :: "(io_step \<Rightarrow> bool) \<Rightarrow> disk \<Rightarrow> fsys \<Rightarrow> string list \<Rightarrow> int \<times> fsys" where
  "create_afs ok dk fs files =
     (if length files > 65535 then (-14, fs)
      else if \<not> ok Mkstemp then (-1, fs)
      else let fs1 = fs\<lparr>tmpfile := Some [], tmp_open := True\<rparr> in
        if \<not> ok Fdopen then (-2, close_unlink fs1)
        else if \<not> ok HdrWrite then (-3, close_unlink fs1)
        else let ofp = fwrite (afs_header (word_of_nat (length files))) \<lparr>odata = [], opos = 0\<rparr>;
                 fpos = opos ofp in
          if \<not> ok TableSeek then (-4, close_unlink fs1)
          else let ofp1 = fseek_o 0x80000 ofp; wpos = opos ofp1 in
            if \<not> ok BackSeek then (-5, close_unlink fs1)
            else (case add_files_to_afs dk (fseek_o fpos ofp1) fpos wpos files of
                    (rc, ofp2, rfpos, rwpos) \<Rightarrow>
                      if \<not> (rc = 0 \<and> ok AddIO) then (-6, close_unlink fs1)
                      else (0, close_rename ok ofp2 fs1)))"

definition add_to_afs :: "(io_step \<Rightarrow> bool) \<Rightarrow> disk \<Rightarrow> fsys \<Rightarrow> string list \<Rightarrow> int \<times> fsys" where
  "add_to_afs ok dk fs files =
     (let count = (word_of_nat (length files) :: u32) in
      if \<not> ok Mkstemp then (-1, fs)
      else let fs1 = fs\<lparr>tmpfile := Some [], tmp_open := True\<rparr> in
        if \<not> ok Fdopen then (-2, close_unlink fs1)
        else if \<not> ok TableSeek then (-3, close_unlink fs1)
        else let ofp = fseek_o 0x80000 \<lparr>odata = [], opos = 0\<rparr> in
          if \<not> ok BackSeek then (-4, close_unlink fs1)
          else (case scan_afs copy_file_cb (archive fs1) (fseek_o 8 ofp) of
                  (entries, ofp1) \<Rightarrow>
                    if entries < 0 \<or> \<not> ok CopyIO then (-5, close_unlink fs1)
                    else if (word_of_int entries + count :: u32) > 65535
                      then (-6, close_unlink fs1)
                    else let wpos = opos ofp1; fpos = nat (push_bit 3 entries + 8) in
                      if \<not> ok HdrSeek then (-7, close_unlink fs1)
                      else if \<not> ok HdrWrite then (-8, close_unlink fs1)
                      else let ofp2 = fwrite (afs_header (word_of_int entries + count))
                                        (fseek_o 0 ofp1) in
                        if \<not> ok NewSeek then (-9, close_unlink fs1)
                        else (case add_files_to_afs dk (fseek_o fpos ofp2) fpos wpos files of
                                (rc, ofp3, rfpos, rwpos) \<Rightarrow>
                                  if \<not> (rc = 0 \<and> ok AddIO) then (-10, close_unlink fs1)
                                  else (0, close_rename ok ofp3 fs1))))"



section \<open>GSL archives (gsl.c)\<close>

text \<open>The file-scope variable \<open>endianness\<close>; every function that assigns it returns it.\<close>

datatype gsl_endian = GSL_AUTO | GSL_BIG | GSL_LITTLE

text \<open>
  The offset field of a table row, as \<open>scan_gsl\<close> decodes it (the three branches on
  \<open>endianness\<close>).  \<open>flen\<close> is the source's \<open>total\<close>, the length of the file; the comparisons are on
  \<open>uint32_t\<close>.  \<open>None\<close> is the branch that prints "GSL file looks corrupt" and sets
  \<open>rv = -9\<close>; by then \<open>endianness\<close> has been set to \<open>GSL_LITTLE\<close>.
\<close>

definition gsl_decode_offset :: "gsl_endian \<Rightarrow> byte list \<Rightarrow> nat \<Rightarrow> (u32 \<times> gsl_endian) option" where
  "gsl_decode_offset e buf flen =
     (case e of
        GSL_AUTO \<Rightarrow>
          (let offset = rd_be32 buf; t = (word_of_nat flen :: u32) in
           if offset > t \<or> offset * 2048 > t then
             (let offset' = rd_le32 buf in
              if offset' * 2048 > t then None else Some (offset', GSL_LITTLE))
           else Some (offset, GSL_BIG))
      | GSL_BIG \<Rightarrow> Some (rd_be32 buf, GSL_BIG)
      | GSL_LITTLE \<Rightarrow> Some (rd_le32 buf, GSL_LITTLE))"

text \<open>The C string held in a name slot: the bytes before the first NUL.\<close>

definition cstring :: "byte list \<Rightarrow> byte list" where
  "cstring bs = takeWhile (\<lambda>b. b \<noteq> 0) bs"

text \<open>
  The loop of \<open>scan_gsl\<close>: it ends at the first row whose name starts with a NUL byte.  The
  callback may be \<open>NULL\<close>.  It gets the stream positioned at \<open>offset * 2048\<close>, the index, the
  size, the name, the current \<open>endianness\<close> and the user data.
\<close>

function scan_gsl_loop ::
  "(istream \<Rightarrow> u32 \<Rightarrow> u32 \<Rightarrow> byte list \<Rightarrow> gsl_endian \<Rightarrow> 'd \<Rightarrow> int \<times> 'd) option \<Rightarrow>
   istream \<Rightarrow> nat \<Rightarrow> u32 \<Rightarrow> gsl_endian \<Rightarrow> 'd \<Rightarrow> int \<times> gsl_endian \<times> 'd"
where
  "scan_gsl_loop p fp flen i e d =
     (case fread 32 fp of
        None \<Rightarrow> (-2, e, d)
      | Some (filename, fp1) \<Rightarrow>
          if filename ! 0 = 0 then (sint i, e, d)
          else
            (case fread 4 fp1 of
               None \<Rightarrow> (-3, e, d)
             | Some (buf, fp2) \<Rightarrow>
                 (case gsl_decode_offset e buf flen of
                    None \<Rightarrow> (-9, GSL_LITTLE, d)
                  | Some (offset, e1) \<Rightarrow>
                      (case fread 4 fp2 of
                         None \<Rightarrow> (-4, e1, d)
                       | Some (buf', fp3) \<Rightarrow>
                           (let sz = (if e1 = GSL_BIG then rd_be32 buf' else rd_le32 buf');
                                next = ipos fp3 + 8
                            in case (case p of
                                       None \<Rightarrow> (0, d)
                                     | Some cb \<Rightarrow>
                                         cb (fseek_i (unat offset * 2048) fp3) i sz
                                            (cstring filename) e1 d) of
                                 (rc, d') \<Rightarrow>
                                   if rc \<noteq> 0 then (-7, e1, d')
                                   else scan_gsl_loop p (fseek_i next fp3) flen (i + 1) e1 d')))))"
  by pat_completeness auto
termination
  by (relation "measure (\<lambda>(p, fp, flen, i, e, d). length (idata fp) - ipos fp)")
     (auto simp: fread_def fseek_i_def split: if_splits)

definition scan_gsl ::
  "(istream \<Rightarrow> u32 \<Rightarrow> u32 \<Rightarrow> byte list \<Rightarrow> gsl_endian \<Rightarrow> 'd \<Rightarrow> int \<times> 'd) option \<Rightarrow>
   byte list option \<Rightarrow> gsl_endian \<Rightarrow> 'd \<Rightarrow> int \<times> gsl_endian \<times> 'd"
where
  "scan_gsl p f e d =
     (case f of
        None \<Rightarrow> (-1, e, d)
      | Some dat \<Rightarrow> scan_gsl_loop p \<lparr>idata = dat, ipos = 0\<rparr> (length dat) 0 e d)"

text \<open>
  \<open>hdrlen = ((count * 48) + 2048) & 0xFFFFF000\<close>, the size of the table region in
  \<open>create_gsl\<close>, \<open>add_to_gsl\<close>, \<open>update_gsl\<close> and \<open>delete_from_gsl\<close>; the arithmetic is
  unsigned 32-bit because of the constant.
\<close>

definition gsl_hdrlen :: "u32 \<Rightarrow> u32" where
  "gsl_hdrlen count = (count * 48 + 2048) AND 0xFFFFF000"

text \<open>POSIX \<open>basename\<close>: the last component of a path, trailing slashes dropped.\<close>

definition basename :: "string \<Rightarrow> string" where
  "basename path =
     (let q = rev (dropWhile (\<lambda>c. c = CHR ''/'') (rev path)) in
      if path = [] then ''.''
      else if q = [] then ''/''
      else rev (takeWhile (\<lambda>c. c \<noteq> CHR ''/'') (rev q)))"

text \<open>
  The 16 bytes after the name in a table row: the offset in 2048-byte blocks
  (\<open>wpos >> 11\<close>), the size, and eight zero bytes.
\<close>

definition gsl_row_tail :: "gsl_endian \<Rightarrow> nat \<Rightarrow> u32 \<Rightarrow> byte list" where
  "gsl_row_tail e wpos sz =
     (let wposp = (word_of_nat (drop_bit 11 wpos) :: u32) in
      (if e = GSL_BIG then be32 wposp @ be32 sz else le32 wposp @ le32 sz) @ replicate 8 0)"

fun add_files_to_gsl ::
  "gsl_endian \<Rightarrow> disk \<Rightarrow> ostream \<Rightarrow> nat \<Rightarrow> nat \<Rightarrow> string list \<Rightarrow> int \<times> ostream \<times> nat \<times> nat"
where
  "add_files_to_gsl e dk ofp fpos wpos [] = (0, ofp, fpos, wpos)"
| "add_files_to_gsl e dk ofp fpos wpos (f # files) =
     (case dk f of
        None \<Rightarrow> (-1, ofp, fpos, wpos)
      | Some content \<Rightarrow>
          (let sz = (word_of_nat (length content) :: u32);
               filename = basename f;
               fnlen = length filename
           in if fnlen \<ge> 32 then (-11, ofp, fpos, wpos)
              else
                (let ofp1 = fwrite (replicate (32 - fnlen) 0) (fwrite (map of_char filename) ofp);
                     ofp2 = fwrite (gsl_row_tail e wpos sz) ofp1;
                     fpos' = opos ofp2
                 in case copy_file (fseek_o wpos ofp2) \<lparr>idata = content, ipos = 0\<rparr> (unat sz) of
                      (rc, ofp3, ifp) \<Rightarrow>
                        if rc \<noteq> 0 then (-6, ofp3, fpos, wpos)
                        else (case pad_file ofp3 2048 of
                                (wpos', ofp4) \<Rightarrow>
                                  add_files_to_gsl e dk (fseek_o fpos' ofp4) fpos' wpos' files))))"

text \<open>\<open>strncpy((char *)buf, fn, 32)\<close>: the name, padded with NUL bytes to 32.\<close>

definition strncpy32 :: "byte list \<Rightarrow> byte list" where
  "strncpy32 fn = take 32 (fn @ replicate 32 0)"




record gsl_update_cxt =
  gu_fp :: ostream
  gu_fn :: string
  gu_path :: string
  gu_fpos :: nat
  gu_wpos :: nat

text \<open>
  \<open>copy_update\<close> of gsl.c: the row whose name equals \<open>cxt->fn\<close> is replaced by the file at
  \<open>cxt->path\<close>; every other row and payload is copied.
\<close>

definition copy_update_gsl ::
  "disk \<Rightarrow> istream \<Rightarrow> u32 \<Rightarrow> u32 \<Rightarrow> byte list \<Rightarrow> gsl_endian \<Rightarrow> gsl_update_cxt \<Rightarrow>
   int \<times> gsl_update_cxt"
where
  "copy_update_gsl dk fp i sz fn e cxt =
     (if cstring (map of_char (gu_fn cxt)) = fn then
        (case add_files_to_gsl e dk (fseek_o (gu_fpos cxt) (gu_fp cxt)) (gu_fpos cxt)
                (gu_wpos cxt) [gu_path cxt] of
           (rc, ofp, fpos', wpos') \<Rightarrow>
             if rc \<noteq> 0 then (-6, cxt\<lparr>gu_fp := ofp\<rparr>)
             else (0, cxt\<lparr>gu_fp := ofp, gu_fpos := fpos', gu_wpos := wpos'\<rparr>))
      else let ofp1 = fwrite (strncpy32 fn @ gsl_row_tail e (gu_wpos cxt) sz)
                        (fseek_o (gu_fpos cxt) (gu_fp cxt));
               fpos' = gu_fpos cxt + 48
           in case copy_file (fseek_o (gu_wpos cxt) ofp1) fp (unat sz) of
                (rc, ofp2, fp') \<Rightarrow>
                  if rc \<noteq> 0 then (-4, cxt\<lparr>gu_fp := ofp2, gu_fpos := fpos'\<rparr>)
                  else (case pad_file ofp2 2048 of
                          (wpos', ofp3) \<Rightarrow>
                            (0, cxt\<lparr>gu_fp := ofp3, gu_fpos := fpos', gu_wpos := wpos'\<rparr>)))"

text \<open>
  The four writing operations of gsl.c.  The first argument of the result is the return
  value; \<open>e\<close> is \<open>endianness\<close> at the call.
\<close>

definition create_gsl ::
  "(io_step \<Rightarrow> bool) \<Rightarrow> gsl_endian \<Rightarrow> disk \<Rightarrow> fsys \<Rightarrow> string list \<Rightarrow> int \<times> fsys"
where
  "create_gsl ok e dk fs files =
     (let e1 = (if e = GSL_AUTO then GSL_BIG else e);
          hdrlen = unat (gsl_hdrlen (word_of_nat (length files)))
      in if \<not> ok Mkstemp then (-1, fs)
         else let fs1 = fs\<lparr>tmpfile := Some [], tmp_open := True\<rparr> in
           if \<not> ok Fdopen then (-2, close_unlink fs1)
           else if \<not> ok TableSeek then (-4, close_unlink fs1)
           else let ofp = fseek_o hdrlen \<lparr>odata = [], opos = 0\<rparr>; wpos = opos ofp in
             if \<not> ok BackSeek then (-5, close_unlink fs1)
             else (case add_files_to_gsl e1 dk (fseek_o 0 ofp) 0 wpos files of
                     (rc, ofp1, rfpos, rwpos) \<Rightarrow>
                       if \<not> (rc = 0 \<and> ok AddIO) then (-6, close_unlink fs1)
                       else (0, close_rename ok ofp1 fs1)))"


definition update_gsl ::
  "(io_step \<Rightarrow> bool) \<Rightarrow> gsl_endian \<Rightarrow> disk \<Rightarrow> fsys \<Rightarrow> string \<Rightarrow> string \<Rightarrow> int \<times> fsys"
where
  "update_gsl ok e dk fs file path =
     (case scan_gsl None (archive fs) e () of
        (entries, e1, u) \<Rightarrow>
          if entries < 0 \<or> \<not> ok ScanIO then (-11, fs)
          else let hdrlen = unat (gsl_hdrlen (word_of_int entries)) in
            if \<not> ok Mkstemp then (-3, fs)
            else let fs1 = fs\<lparr>tmpfile := Some [], tmp_open := True\<rparr> in
              if \<not> ok Fdopen then (-4, close_unlink fs1)
              else if \<not> ok TableSeek then (-5, close_unlink fs1)
              else let ofp = fseek_o hdrlen \<lparr>odata = [], opos = 0\<rparr> in
                if \<not> ok BackSeek then (-6, close_unlink fs1)
                else (case scan_gsl (Some (copy_update_gsl dk)) (archive fs1) e1
                             \<lparr>gu_fp = fseek_o 0 ofp, gu_fn = file, gu_path = path, gu_fpos = 0,
                              gu_wpos = opos ofp\<rparr> of
                        (rv, e2, cxt) \<Rightarrow>
                          if rv < 0 \<or> \<not> ok CopyIO then (-7, close_unlink fs1)
                          else (0, close_rename ok (gu_fp cxt) fs1)))"


section \<open>BML extraction (bmltool.c)\<close>

text \<open>
  \<open>bml_entry_t\<close> with its fields decoded (\<open>LE32\<close> is the identity on a little-endian
  host and a byte swap on a big-endian one, so the fields are little-endian in the file).
  \<open>filename\<close> is the C string in the 32-byte slot.
\<close>

record bml_entry =
  filename :: string
  csize :: u32
  unk :: u32
  usize :: u32
  pvm_csize :: u32
  pvm_usize :: u32

definition read_bml_entry :: "byte list \<Rightarrow> bml_entry" where
  "read_bml_entry raw =
     \<lparr>filename = map (\<lambda>b. char_of (unat b)) (cstring (take 32 raw)),
      csize = rd_le32 (drop 32 raw), unk = rd_le32 (drop 36 raw), usize = rd_le32 (drop 40 raw),
      pvm_csize = rd_le32 (drop 44 raw), pvm_usize = rd_le32 (drop 48 raw)\<rparr>"

definition open_bml :: "byte list option \<Rightarrow> (istream \<times> u32) option" where
  "open_bml f =
     (case f of
        None \<Rightarrow> None
      | Some dat \<Rightarrow>
          (case fread 12 \<lparr>idata = dat, ipos = 0\<rparr> of
             None \<Rightarrow> None
           | Some (buf, fp) \<Rightarrow>
               if buf ! 0 \<noteq> 0 \<or> buf ! 1 \<noteq> 0 \<or> buf ! 2 \<noteq> 0 \<or> buf ! 3 \<noteq> 0 \<or> buf ! 8 \<noteq> 0x50
                  \<or> buf ! 9 \<noteq> 0x01 \<or> buf ! 10 \<noteq> 0 \<or> buf ! 11 \<noteq> 0
               then None
               else Some (fseek_i 64 fp, rd_le32 (drop 4 buf))))"

text \<open>\<open>if((x & 0x1F)) x = (x + 0x20) & 0xFFFFFFE0;\<close>\<close>

definition bml_align32 :: "u32 \<Rightarrow> u32" where
  "bml_align32 x = (if x AND 0x1F \<noteq> 0 then (x + 0x20) AND 0xFFFFFFE0 else x)"

text \<open>
  The loop of \<open>scan_bml\<close>.  The callback gets the stream, the entry, the index, the offset
  of the entry's data, the offset of its PVM and the user data.  \<open>rv\<close> is the source's
  variable of that name: the entry count before the first entry, the callback's code
  after it; a nonzero code of the callback ends the scan.
\<close>

function scan_bml_loop ::
  "(istream \<Rightarrow> bml_entry \<Rightarrow> u32 \<Rightarrow> u32 \<Rightarrow> u32 \<Rightarrow> 'd \<Rightarrow> int \<times> 'd) \<Rightarrow>
   istream \<Rightarrow> u32 \<Rightarrow> nat \<Rightarrow> u32 \<Rightarrow> int \<Rightarrow> 'd \<Rightarrow> int \<times> 'd"
where
  "scan_bml_loop p fp entries i offset rv d =
     (if i < unat entries then
        (case fread 64 fp of
           None \<Rightarrow> (-2, d)
         | Some (raw, fp1) \<Rightarrow>
             (let ent = read_bml_entry raw;
                  poffset = bml_align32 (offset + csize ent);
                  eoffset = (if pvm_csize ent \<noteq> 0 then bml_align32 (poffset + pvm_csize ent)
                             else poffset)
              in case p fp1 ent (word_of_nat i) offset poffset d of
                   (rv', d') \<Rightarrow>
                     if rv' \<noteq> 0 then (rv', d')
                     else scan_bml_loop p (fseek_i (ipos fp1) fp1) entries (Suc i) eoffset rv' d'))
      else (rv, d))"
  by pat_completeness auto
termination
  by (relation "measure (\<lambda>(p, fp, entries, i, offset, rv, d). unat entries - i)") auto

definition bml_hdr_offset :: "u32 \<Rightarrow> u32" where
  "bml_hdr_offset entries =
     (let offset = (entries + 1) * 64 in
      if offset AND 0x7FF \<noteq> 0 then (offset + 0x800) AND 0xFFFFF800 else offset)"

definition scan_bml ::
  "(istream \<Rightarrow> bml_entry \<Rightarrow> u32 \<Rightarrow> u32 \<Rightarrow> u32 \<Rightarrow> 'd \<Rightarrow> int \<times> 'd) \<Rightarrow> byte list option \<Rightarrow> 'd \<Rightarrow> int \<times> 'd"
where
  "scan_bml p f d =
     (case open_bml f of
        None \<Rightarrow> (-1, d)
      | Some (fp, entries) \<Rightarrow>
          scan_bml_loop p fp entries 0 (bml_hdr_offset entries) (sint entries) d)"

text \<open>
  \<open>extract_file\<close>, the callback of the extract operation.  \<open>d\<close> is the one name asked for,
  or \<open>None\<close> for all.  The files written are returned as pairs of name and contents, in
  the order of their \<open>fopen\<close>.
\<close>

definition extract_file ::
  "istream \<Rightarrow> bml_entry \<Rightarrow> u32 \<Rightarrow> u32 \<Rightarrow> u32 \<Rightarrow> string option \<Rightarrow> int \<times> (string \<times> byte list) list"
where
  "extract_file fp ent i offset poffset d =
     (if d \<noteq> None \<and> d \<noteq> Some (filename ent) then (0, [])
      else
        (case copy_file \<lparr>odata = [], opos = 0\<rparr> (fseek_i (unat offset) fp) (unat (csize ent)) of
           (rc, ofp, fp1) \<Rightarrow>
             if rc \<noteq> 0 then (-3, [(filename ent @ ''.prs'', odata ofp)])
             else if pvm_csize ent \<noteq> 0 then
               (case copy_file \<lparr>odata = [], opos = 0\<rparr> (fseek_i (unat poffset) fp1)
                       (unat (csize ent)) of
                  (rc', ofp', fp2) \<Rightarrow>
                    (if rc' \<noteq> 0 then -6 else 0,
                     [(filename ent @ ''.prs'', odata ofp),
                      (filename ent @ ''.pvm.prs'', odata ofp')]))
             else (0, [(filename ent @ ''.prs'', odata ofp)])))"

text \<open>
  The extract operations of \<open>parse_command_line\<close>: \<open>scan_bml(argv[2], &extract_file, d)\<close>,
  with the files written so far as the state.
\<close>

definition extract_bml :: "byte list option \<Rightarrow> string option \<Rightarrow> int \<times> (string \<times> byte list) list" where
  "extract_bml f d =
     scan_bml (\<lambda>fp ent i offset poffset outs.
                 case extract_file fp ent i offset poffset d of
                   (rc, written) \<Rightarrow> (rc, outs @ written)) f []"

section \<open>Keyed compression front end (prsd.c)\<close>

datatype prsd_endian = PSO_PRSD_AUTO_ENDIAN | PSO_PRSD_LITTLE_ENDIAN | PSO_PRSD_BIG_ENDIAN

text \<open>
  What one run of \<open>prsd\<close> asks of its collaborators: nothing but a return value, a call of
  \<open>pso_prsd_decompress_file\<close>, or a call of \<open>pso_prsd_compress\<close> on the contents of the
  input file with a key and an endianness, written to the archive path.
\<close>

datatype prsd_call =
  Return int
  | Decompress string prsd_endian
  | Compress string string u32 prsd_endian

text \<open>
  \<open>prsd\<close>: \<open>argv\<close> is the argument vector, \<open>strtoul\<close> gives the value parsed and whether
  \<open>errno\<close> was set, \<open>rnd\<close> is what \<open>rand()\<close> returns.  The local variable \<open>key\<close> is
  computed as in the source.
\<close>

definition prsd :: "(string \<Rightarrow> u32 \<times> bool) \<Rightarrow> u32 \<Rightarrow> string list \<Rightarrow> prsd_call" where
  "prsd strtoul rnd argv =
     (let argc = length argv in
      if argc < 4 \<or> argc > 6 then Return (-1)
      else
        let endian =
              (if argv ! 1 = ''--prsd-little'' \<or> argv ! 1 = ''--prc-little''
                 then PSO_PRSD_LITTLE_ENDIAN
               else if argv ! 1 = ''--prsd-big'' \<or> argv ! 1 = ''--prc-big''
                 then PSO_PRSD_BIG_ENDIAN
               else PSO_PRSD_AUTO_ENDIAN)
        in if argv ! 2 = ''-x'' then
             (if argc = 6 then Return (-1) else Decompress (argv ! 3) endian)
           else if argv ! 2 = ''-c'' then
             (if argc < 5 then Return (-1)
              else
                let endian' = (if endian = PSO_PRSD_AUTO_ENDIAN then PSO_PRSD_LITTLE_ENDIAN
                               else endian);
                    (key, errno) = (if argc = 6 then strtoul (argv ! 5) else (rnd, False))
                in if errno then Return 1
                   else Compress (argv ! 3) (argv ! 4) 0xfeedface endian')
           else Return (-1))"

section \<open>The PRS codec\<close>

text \<open>
  Modelled from the spec: the bodies of \<open>prs_compress\<close> and \<open>prs_decompress_buf\<close> are not
  among the sources (only prs.h declares them), and the keyed PRSD codec belongs to
  libpsoarchive.  The spec describes a sliding-window LZ-style compression with a packed
  control-bit-plus-literal/backreference-token stream, whose decompression checks every
  backreference and fails cleanly on non-conforming input.  A token is a literal byte or
  a backreference: a distance back into the output and a length.
\<close>

datatype prs_token = Literal byte | Backref nat nat

text \<open>
  Modelled from the spec: the bounds of the sliding window and of one match; the spec
  gives no numbers.
\<close>

definition prs_window :: nat where "prs_window = 8191"
definition prs_min_match :: nat where "prs_min_match = 3"
definition prs_max_match :: nat where "prs_max_match = 255"

text \<open>
  Modelled from the spec: the search for a backreference.  \<open>match_length\<close> is the length
  of the common prefix; \<open>match_at\<close> is the match at one distance (the source of the copy
  may run into the bytes being matched); \<open>best_match\<close> is the first longest match within
  the window, as distance and length.
\<close>

fun match_length :: "byte list \<Rightarrow> byte list \<Rightarrow> nat" where
  "match_length (x # xs) (y # ys) = (if x = y then Suc (match_length xs ys) else 0)"
| "match_length xs ys = 0"

definition match_at :: "byte list \<Rightarrow> byte list \<Rightarrow> nat \<Rightarrow> nat" where
  "match_at hist rest d =
     min prs_max_match (match_length (drop (length hist - d) (hist @ rest)) rest)"

definition best_match :: "byte list \<Rightarrow> byte list \<Rightarrow> nat \<times> nat" where
  "best_match hist rest =
     foldl (\<lambda>best d. if match_at hist rest d > snd best then (d, match_at hist rest d) else best)
       (0, 0) [1 ..< Suc (min prs_window (length hist))]"

text \<open>
  Modelled from the spec: the compression proper, greedy from left to right.  \<open>hist\<close> is
  the input already encoded.
\<close>

function tokenize :: "byte list \<Rightarrow> byte list \<Rightarrow> prs_token list" where
  "tokenize hist [] = []"
| "tokenize hist (b # rest) =
     (if snd (best_match hist (b # rest)) \<ge> prs_min_match
      then Backref (fst (best_match hist (b # rest))) (snd (best_match hist (b # rest)))
             # tokenize (hist @ take (snd (best_match hist (b # rest))) (b # rest))
                 (drop (snd (best_match hist (b # rest))) (b # rest))
      else Literal b # tokenize (hist @ [b]) rest)"
  by pat_completeness auto
termination
  by (relation "measure (\<lambda>(hist, rest). length rest)") (auto simp: prs_min_match_def)

text \<open>
  Modelled from the spec: the packed stream.  Tokens go in groups of eight behind one
  control byte whose bit \<open>i\<close> is set when token \<open>i\<close> of the group is a literal.  A literal
  is its byte; a backreference is its distance in two bytes, low byte first, and its
  length in one.  A backreference with distance 0 ends the stream, so the output is
  self-describing.
\<close>

fun token_flag :: "prs_token \<Rightarrow> bool" where
  "token_flag (Literal b) = True"
| "token_flag (Backref d n) = False"

fun token_bytes :: "prs_token \<Rightarrow> byte list" where
  "token_bytes (Literal b) = [b]"
| "token_bytes (Backref d n) = [word_of_nat (d mod 256), word_of_nat (d div 256), word_of_nat n]"

fun control_bits :: "bool list \<Rightarrow> nat" where
  "control_bits [] = 0"
| "control_bits (f # fs) = (if f then 1 else 0) + 2 * control_bits fs"

function pack :: "prs_token list \<Rightarrow> byte list" where
  "pack ts =
     (if ts = [] then []
      else word_of_nat (control_bits (map token_flag (take 8 ts)))
             # concat (map token_bytes (take 8 ts)) @ pack (drop 8 ts))"
  by pat_completeness auto
termination
  by (relation "measure length") auto

definition prs_compress :: "byte list \<Rightarrow> byte list" where
  "prs_compress src = pack (tokenize [] src @ [Backref 0 0])"

text \<open>
  Modelled from the spec: decompression.  \<open>c\<close> holds the control bits not yet used and
  \<open>k\<close> their number.  Input that ends early is \<open>Truncated\<close>; a backreference that reaches
  before the start of the output is \<open>Corrupt\<close>.
\<close>

datatype prs_error = Truncated | Corrupt

fun copy_back :: "byte list \<Rightarrow> nat \<Rightarrow> nat \<Rightarrow> byte list" where
  "copy_back out d 0 = out"
| "copy_back out d (Suc n) = copy_back (out @ [out ! (length out - d)]) d n"

function prs_decode :: "byte list \<Rightarrow> nat \<Rightarrow> nat \<Rightarrow> byte list \<Rightarrow> prs_error + byte list" where
  "prs_decode inp c 0 out =
     (case inp of
        [] \<Rightarrow> Inl Truncated
      | c' # inp' \<Rightarrow> prs_decode inp' (unat c') 8 out)"
| "prs_decode inp c (Suc k) out =
     (if odd c then
        (case inp of
           [] \<Rightarrow> Inl Truncated
         | b # inp' \<Rightarrow> prs_decode inp' (c div 2) k (out @ [b]))
      else
        (case inp of
           lo # hi # n # inp' \<Rightarrow>
             (let d = unat lo + 256 * unat hi in
              if d = 0 then Inr out
              else if d > length out then Inl Corrupt
              else prs_decode inp' (c div 2) k (copy_back out d (unat n)))
         | _ \<Rightarrow> Inl Truncated))"
  by pat_completeness auto
termination
  by (relation "measure (\<lambda>(inp, c, k, out). length inp)") auto

definition prs_decompress_buf :: "byte list \<Rightarrow> prs_error + byte list" where
  "prs_decompress_buf src = prs_decode src 0 0 []"


text \<open>
  Modelled from the spec: the keyed variant XORs the compressed stream with a key
  schedule.  The spec does not give the schedule, so it is a parameter: \<open>ks key i\<close> is
  byte \<open>i\<close> of the schedule of \<open>key\<close>.  The same key and schedule are needed to decompress.
\<close>

fun xor_from :: "(u32 \<Rightarrow> nat \<Rightarrow> byte) \<Rightarrow> u32 \<Rightarrow> nat \<Rightarrow> byte list \<Rightarrow> byte list" where
  "xor_from ks key i [] = []"
| "xor_from ks key i (b # bs) = (b XOR ks key i) # xor_from ks key (Suc i) bs"

definition prsd_compress :: "(u32 \<Rightarrow> nat \<Rightarrow> byte) \<Rightarrow> u32 \<Rightarrow> byte list \<Rightarrow> byte list" where
  "prsd_compress ks key src = xor_from ks key 0 (prs_compress src)"

definition prsd_decompress_buf ::
  "(u32 \<Rightarrow> nat \<Rightarrow> byte) \<Rightarrow> u32 \<Rightarrow> byte list \<Rightarrow> prs_error + byte list"
where
  "prsd_decompress_buf ks key src = prs_decompress_buf (xor_from ks key 0 src)"

text \<open>
  Two notions for the proofs: a token whose fields fit their bytes, and the meaning of a
  token list as the output it appends.
\<close>

fun fits :: "prs_token \<Rightarrow> bool" where
  "fits (Literal b) = True"
| "fits (Backref d n) = (d < 65536 \<and> n < 256)"

fun expand :: "byte list \<Rightarrow> prs_token list \<Rightarrow> byte list option" where
  "expand out [] = Some out"
| "expand out (Literal b # ts) = expand (out @ [b]) ts"
| "expand out (Backref d n # ts) =
     (if d = 0 \<or> d > length out then None else expand (copy_back out d n) ts)"

section \<open>Concrete inputs\<close>

text \<open>An environment in which no call fails, and one in which only \<open>rename\<close> fails.\<close>

definition all_ok :: "io_step \<Rightarrow> bool" where
  "all_ok s = True"


text \<open>A file system with the given archive and no temporary file.\<close>

definition no_temp :: "byte list option \<Rightarrow> fsys" where
  "no_temp a = \<lparr>archive = a, tmpfile = None, tmp_open = False\<rparr>"

text \<open>A disk holding one input file.\<close>

definition one_file :: "string \<Rightarrow> byte list \<Rightarrow> disk" where
  "one_file name content path = (if path = name then Some content else None)"

text \<open>
  A big-endian GSL archive of 2050 bytes with one entry: the name \<open>a\<close>, its two payload
  bytes \<open>XY\<close> in block 1, and the empty row that ends the table.
\<close>

definition gsl_one_entry :: "byte list" where
  "gsl_one_entry =
     ([0x61] @ replicate 31 0 @ be32 1 @ be32 2 @ replicate 8 0) @ replicate 2000 0 @ [0x58, 0x59]"

text \<open>
  A file of 80 bytes: one row named \<open>a\<close> whose offset field holds the bytes
  \<open>00 00 20 00\<close>, and the empty row that ends the table.
\<close>

definition gsl_far_offset :: "byte list" where
  "gsl_far_offset =
     ([0x61] @ replicate 31 0 @ [0x00, 0x00, 0x20, 0x00] @ [0, 0, 0, 0] @ replicate 8 0)
     @ replicate 32 0"

text \<open>
  A BML archive of 2084 bytes with one entry \<open>f\<close>: two bytes of data at 2048 and a PVM of
  four bytes at 2080.
\<close>

definition bml_one_pvm :: "byte list" where
  "bml_one_pvm =
     ([0, 0, 0, 0, 1, 0, 0, 0, 0x50, 0x01, 0, 0] @ replicate 52 0)
     @ ([0x66] @ replicate 31 0 @ le32 2 @ le32 0 @ le32 2 @ le32 4 @ le32 4 @ replicate 12 0)
     @ replicate 1920 0 @ [1, 2] @ replicate 30 0 @ [5, 6, 7, 8]"


section \<open>What a rebuild leaves behind\<close>


section \<open>Evaluation\<close>

lemmas io_defs =
  fread_def fwrite_def fseek_o_def fseek_i_def pad_file_def Let_def
  le32_def be32_def rd_le32_def rd_be32_def

lemmas env_defs = all_ok_def one_file_def no_temp_def close_rename_def close_unlink_def

lemma char_of_f: "char_of (102 :: nat) = CHR ''f''"
  by code_simp

section \<open>Padding\<close>

lemma and_not_mask_int: "(x::int) AND NOT (mask k) = x div 2 ^ k * 2 ^ k"
proof -
  have "x AND NOT (mask k) = push_bit k (drop_bit k x)"
    by (rule bit_eqI) (auto simp: bit_simps)
  then show ?thesis by (simp add: push_bit_eq_mult drop_bit_eq_div)
qed

text \<open>
  For a boundary that is a power of two, \<open>pad_file\<close> returns the multiple of the boundary
  that follows the block the position lies in, which is always beyond the position.
\<close>

lemma pad_file_pow2: "fst (pad_file fp (2 ^ k)) = (opos fp div 2 ^ k + 1) * 2 ^ k"
proof -
  let ?x = "int (opos fp)"
  have e1: "?x AND NOT (2 ^ k - 1) = ?x div 2 ^ k * 2 ^ k"
    using and_not_mask_int [of ?x k] by (simp add: mask_eq_exp_minus_1)
  have "(?x AND NOT (2 ^ k - 1)) + 2 ^ k = (?x div 2 ^ k + 1) * 2 ^ k"
    unfolding e1 by (simp add: algebra_simps)
  also have "\<dots> = int ((opos fp div 2 ^ k + 1) * 2 ^ k)"
    by (simp add: zdiv_int algebra_simps)
  finally have "nat ((?x AND NOT (2 ^ k - 1)) + 2 ^ k) = (opos fp div 2 ^ k + 1) * 2 ^ k"
    by (simp only: nat_int)
  then show ?thesis
    by (simp add: pad_file_def Let_def)
qed

lemma pad_file_advances: "opos fp < fst (pad_file fp (2 ^ k))"
proof -
  define q r where "q = opos fp div 2 ^ k" and "r = opos fp mod 2 ^ k"
  have "r < 2 ^ k" and "opos fp = q * 2 ^ k + r"
    by (simp_all add: q_def r_def algebra_simps)
  then have "opos fp < (q + 1) * 2 ^ k" by simp
  then show ?thesis by (simp add: pad_file_pow2 q_def)
qed

text \<open>
  C5.  The claim: \<open>pad_file\<close> returns the position unchanged when the boundary is not
  positive, and otherwise the least multiple of the boundary that is at least the
  position, so that a position already on the boundary is returned unchanged.  The code
  at a position on the boundary: with boundary 32 the position 2080 (the end of a payload
  of 32 bytes written at 2048, as in bmltool.c) becomes 2112, and with boundary 2048 the
  position 0x80800 (the end of a payload of 2048 bytes written at 0x80000, as in afs.c)
  becomes 0x81000; a whole block of padding is added.
\<close>

theorem pad_file_on_boundary:
  "fst (pad_file \<lparr>odata = replicate 2080 0, opos = 2080\<rparr> 32) = 2112
   \<and> fst (pad_file \<lparr>odata = replicate 0x80800 0, opos = 0x80800\<rparr> 2048) = 0x81000"
  by (simp add: pad_file_def Let_def)

section \<open>The GSL table region\<close>

text \<open>
  C3.  The claim: every writing operation on a GSL archive reserves, before the first
  payload, a table region of the entry count times 48 bytes rounded up to a multiple of
  2048.  The code for one entry: \<open>hdrlen\<close> is 0, not 2048, and \<open>create_gsl\<close> writes the
  payload byte \<open>X\<close> of its only input file at offset 0, over the name \<open>a\<close> of the table
  row, whose offset field is 0.
\<close>

theorem gsl_hdrlen_one_entry:
  "gsl_hdrlen 1 = 0
   \<and> (case create_gsl all_ok GSL_AUTO (one_file ''a'' [0x58]) (no_temp None) [''a''] of
        (rc, fs) \<Rightarrow>
          rc = 0
          \<and> map_option (take 48) (archive fs)
              = Some ([0x58] @ replicate 31 0 @ be32 0 @ be32 1 @ replicate 8 0))"
  by (simp add: gsl_hdrlen_def create_gsl_def basename_def gsl_row_tail_def env_defs io_defs)

section \<open>Endianness detection\<close>

text \<open>
  Once \<open>endianness\<close> is big or little, every later offset is decoded that way and the
  scan leaves it as it is.
\<close>

lemma gsl_decode_offset_fixed:
  "e \<noteq> GSL_AUTO \<Longrightarrow>
   gsl_decode_offset e buf flen = Some (if e = GSL_BIG then rd_be32 buf else rd_le32 buf, e)"
  by (cases e) (auto simp: gsl_decode_offset_def)

lemma scan_gsl_loop_keeps_endianness:
  "e \<noteq> GSL_AUTO \<Longrightarrow> fst (snd (scan_gsl_loop p fp flen i e d)) = e"
proof (induction p fp flen i e d rule: scan_gsl_loop.induct)
  case (1 p fp flen i e d)
  note dec = gsl_decode_offset_fixed [OF "1.prems"]
  show ?case
    apply (subst scan_gsl_loop.simps)
    using "1.IH" "1.prems"
    apply (auto split: option.splits prod.splits simp: dec Let_def simp del: scan_gsl_loop.simps)
    done
qed

text \<open>
  Where the 32-bit product cannot wrap (both readings below \<open>2 ^ 21\<close> blocks, the file
  shorter than 4 GiB), the detection is the one described: big-endian when that reading
  lies within the file, else little-endian when that one does, else the corruption error.
\<close>

lemma unat_blocks: "unat w < 2 ^ 21 \<Longrightarrow> unat (w * 2048 :: u32) = unat w * 2048"
  by (simp add: unat_word_ariths)

lemma gsl_decode_offset_auto:
  assumes "unat (rd_be32 buf) < 2 ^ 21" and "unat (rd_le32 buf) < 2 ^ 21" and "flen < 2 ^ 32"
  shows "gsl_decode_offset GSL_AUTO buf flen =
     (if unat (rd_be32 buf) * 2048 \<le> flen then Some (rd_be32 buf, GSL_BIG)
      else if unat (rd_le32 buf) * 2048 \<le> flen then Some (rd_le32 buf, GSL_LITTLE)
      else None)"
proof -
  have t: "unat (word_of_nat flen :: u32) = flen" using assms(3) by (simp add: unat_of_nat)
  have b: "unat (rd_be32 buf * 2048) = unat (rd_be32 buf) * 2048"
    and l: "unat (rd_le32 buf * 2048) = unat (rd_le32 buf) * 2048"
    using assms(1,2) by (simp_all add: unat_blocks)
  show ?thesis
    unfolding gsl_decode_offset_def
    by (auto simp: Let_def word_less_nat_alt word_le_nat_alt t b l)
qed

text \<open>
  C4.  The claim: under \<open>GSL_AUTO\<close> the first offset is tried as big-endian, then as
  little-endian, and when the little-endian reading is out of range as well the scan
  fails with the corruption error.  The code on a file of 80 bytes whose first offset
  field is \<open>00 00 20 00\<close>: both readings lie beyond the end of the file (8192 and
  2097152 blocks of 2048 bytes), yet the little-endian product wraps to 0 in 32 bits,
  the check passes, and the scan returns 1 entry with \<open>endianness\<close> set to little.
\<close>

theorem scan_gsl_wrapped_offset_accepted:
  "scan_gsl None (Some gsl_far_offset) GSL_AUTO () = (1, GSL_LITTLE, ())
   \<and> unat (rd_be32 [0x00, 0x00, 0x20, 0x00]) * 2048 > length gsl_far_offset
   \<and> unat (rd_le32 [0x00, 0x00, 0x20, 0x00]) * 2048 > length gsl_far_offset"
  by (simp add: scan_gsl_def gsl_decode_offset_def gsl_far_offset_def io_defs)

section \<open>The key of the keyed container\<close>

text \<open>
  C6.  The claim: the key of the compressed output is the key argument when one is given,
  and otherwise a fresh random key that is reported.  The code with the key argument
  \<open>0x12345678\<close>: \<open>pso_prsd_compress\<close> is called with the key \<open>0xfeedface\<close>, whatever
  \<open>rand()\<close> would have returned.
\<close>

theorem prsd_key_argument_ignored:
  "prsd (\<lambda>s. (0x12345678, False)) rnd
        [''pso_artool'', ''--prsd'', ''-c'', ''out.prsd'', ''in.bin'', ''0x12345678'']
   = Compress ''out.prsd'' ''in.bin'' 0xfeedface PSO_PRSD_LITTLE_ENDIAN"
  by (simp add: prsd_def Let_def)

section \<open>Update with a name that is not in the archive\<close>

text \<open>
  C7.  The claim: a GSL update whose target name matches no entry succeeds, and the new
  archive holds the original entries with their names, order and payloads.  The code on
  the archive \<open>gsl_one_entry\<close> (one entry \<open>a\<close> with the payload \<open>XY\<close>) and the target
  \<open>zz\<close>: the result is 0, and the table row of the new archive starts with the payload
  bytes \<open>XY\<close> where the name \<open>a\<close> was, because the table region is 0 bytes long.
\<close>

theorem update_gsl_unmatched_overwrites_row:
  "(case update_gsl all_ok GSL_AUTO (one_file ''n'' [1]) (no_temp (Some gsl_one_entry))
          ''zz'' ''n'' of
      (rc, fs) \<Rightarrow>
        rc = 0
        \<and> map_option (take 48) (archive fs)
            = Some ([0x58, 0x59] @ replicate 30 0 @ be32 0 @ be32 2 @ replicate 8 0))
   \<and> take 48 gsl_one_entry = [0x61] @ replicate 31 0 @ be32 1 @ be32 2 @ replicate 8 0"
  by (simp add: update_gsl_def gsl_hdrlen_def gsl_one_entry_def scan_gsl_def
        gsl_decode_offset_def copy_update_gsl_def cstring_def strncpy32_def gsl_row_tail_def
        env_defs io_defs)

section \<open>The AFS capacity check\<close>

text \<open>
  C8.  Creating an AFS archive from more than 65535 input files returns -14, and the file
  system is as before: neither a temporary file nor an archive has been made.
\<close>

theorem create_afs_capacity:
  "65535 < length files \<Longrightarrow> create_afs ok dk fs files = (-14, fs)"
  by (simp add: create_afs_def)

theorem create_afs_capacity_witness:
  "65535 < length (replicate 65536 ''x'')
   \<and> create_afs all_ok (one_file ''x'' []) (no_temp None) (replicate 65536 ''x'')
       = (-14, no_temp None)"
  using create_afs_capacity [of "replicate 65536 ''x''" all_ok "one_file ''x'' []" "no_temp None"]
  by simp

section \<open>Extraction of a PVM attachment\<close>

text \<open>
  C9.  The claim: the file written for the PVM of a BML entry holds \<open>pvm_csize\<close> bytes
  read from the PVM's offset.  The code on \<open>bml_one_pvm\<close>, whose entry has 2 bytes of data
  and a PVM of 4 bytes \<open>5 6 7 8\<close>: the PVM file holds the 2 bytes \<open>5 6\<close>, the size of the
  parent entry.
\<close>

theorem extract_bml_pvm_has_parent_size:
  "extract_bml (Some bml_one_pvm) None = (0, [(''f.prs'', [1, 2]), (''f.pvm.prs'', [5, 6])])"
  by (simp add: extract_bml_def scan_bml_def open_bml_def bml_hdr_offset_def bml_align32_def
        read_bml_entry_def extract_file_def bml_one_pvm_def cstring_def char_of_f io_defs)

section \<open>The AFS table region\<close>

text \<open>
  C10.  The claim: every AFS-writing operation reserves 0x80000 bytes for the header and
  table, writes the first payload at 0x80000 and records no offset below 0x80000.  The
  code appending the file \<open>7 8 9\<close> to an archive with no entries: the result is 0, the new
  archive is 2048 bytes long, and the payload lies at offset 8, over the offset field of
  its own table row.
\<close>

theorem add_to_afs_empty_archive:
  "(case add_to_afs all_ok (one_file ''b'' [7, 8, 9]) (no_temp (Some (afs_header 0))) [''b''] of
      (rc, fs) \<Rightarrow>
        rc = 0
        \<and> map_option length (archive fs) = Some 2048
        \<and> map_option (take 16) (archive fs) = Some (afs_header 1 @ [7, 8, 9, 0] @ le32 3))"
  by (simp add: add_to_afs_def afs_header_def scan_afs_def open_afs_def env_defs io_defs)

section \<open>Atomicity of the rebuild\<close>














section \<open>Round trip of the codec\<close>

lemma match_length_Suc:
  assumes "Suc n \<le> match_length xs ys"
  obtains x xs' ys' where "xs = x # xs'" "ys = x # ys'" "n \<le> match_length xs' ys'"
  using assms by (cases xs; cases ys) (auto split: if_splits)

lemma copy_back_match:
  "0 < d \<Longrightarrow> d \<le> length hist \<Longrightarrow>
   n \<le> match_length (drop (length hist - d) (hist @ rest)) rest \<Longrightarrow>
   copy_back hist d n = hist @ take n rest"
proof (induction n arbitrary: hist rest)
  case 0
  then show ?case by simp
next
  case (Suc n)
  let ?k = "length hist - d"
  from Suc.prems(3) obtain x xs' rest' where
    src: "drop ?k (hist @ rest) = x # xs'" and rest: "rest = x # rest'"
    and len: "n \<le> match_length xs' rest'"
    by (rule match_length_Suc)
  have k: "?k < length hist" using Suc.prems(1,2) by simp
  then have "drop ?k (hist @ rest) = hist ! ?k # drop (Suc ?k) (hist @ rest)"
    by (simp add: Cons_nth_drop_Suc nth_append)
  with src have x: "hist ! ?k = x" and xs': "drop (Suc ?k) (hist @ rest) = xs'"
    by simp_all
  have idx: "length (hist @ [x]) - d = Suc ?k"
    using Suc.prems(2) by simp
  have "n \<le> match_length (drop (length (hist @ [x]) - d) ((hist @ [x]) @ rest')) rest'"
    using len xs' rest idx by simp
  moreover have "d \<le> length (hist @ [x])" using Suc.prems(2) by simp
  ultimately have "copy_back (hist @ [x]) d n = (hist @ [x]) @ take n rest'"
    using Suc.IH [of "hist @ [x]" rest'] Suc.prems(1) by blast
  then show ?case using x rest by simp
qed

lemma best_match_fold:
  "foldl (\<lambda>best d. if match_at hist rest d > snd best then (d, match_at hist rest d) else best)
     b ds = r \<Longrightarrow>
   r = b \<or> (fst r \<in> set ds \<and> snd r = match_at hist rest (fst r))"
proof (induction ds arbitrary: b)
  case Nil
  then show ?case by simp
next
  case (Cons d ds)
  from Cons.IH [OF Cons.prems [simplified]]
  show ?case by (auto split: if_splits)
qed

lemma best_match_sound:
  assumes "0 < snd (best_match hist rest)"
  shows "0 < fst (best_match hist rest)"
    and "fst (best_match hist rest) \<le> length hist"
    and "fst (best_match hist rest) \<le> prs_window"
    and "snd (best_match hist rest) = match_at hist rest (fst (best_match hist rest))"
proof -
  from best_match_fold [OF refl, of hist rest "(0, 0)" "[1 ..< Suc (min prs_window (length hist))]"]
  have "best_match hist rest = (0, 0)
      \<or> (fst (best_match hist rest) \<in> set [1 ..< Suc (min prs_window (length hist))]
         \<and> snd (best_match hist rest) = match_at hist rest (fst (best_match hist rest)))"
    unfolding best_match_def .
  with assms have m: "fst (best_match hist rest) \<in> set [1 ..< Suc (min prs_window (length hist))]"
    and e: "snd (best_match hist rest) = match_at hist rest (fst (best_match hist rest))"
    by auto
  from m show "0 < fst (best_match hist rest)" "fst (best_match hist rest) \<le> length hist"
    "fst (best_match hist rest) \<le> prs_window" by auto
  from e show "snd (best_match hist rest) = match_at hist rest (fst (best_match hist rest))" .
qed

lemma match_at_le: "match_at hist rest d \<le> prs_max_match"
  and match_at_le': "match_at hist rest d \<le> match_length (drop (length hist - d) (hist @ rest)) rest"
  by (simp_all add: match_at_def)

lemma match_length_le: "match_length xs ys \<le> length ys"
  by (induction xs ys rule: match_length.induct) auto

lemma expand_tokenize:
  "expand hist (tokenize hist rest) = Some (hist @ rest)"
proof (induction hist rest rule: tokenize.induct)
  case (1 hist)
  then show ?case by simp
next
  case (2 hist b rest)
  let ?m = "best_match hist (b # rest)"
  show ?case
  proof (cases "prs_min_match \<le> snd ?m")
    case True
    then have pos: "0 < snd ?m" by (simp add: prs_min_match_def)
    note bm = best_match_sound [OF pos]
    have "snd ?m \<le> match_length (drop (length hist - fst ?m) (hist @ b # rest)) (b # rest)"
      using bm(4) match_at_le' [of hist "b # rest" "fst ?m"] by simp
    then have cb: "copy_back hist (fst ?m) (snd ?m) = hist @ take (snd ?m) (b # rest)"
      using copy_back_match [OF bm(1) bm(2)] by blast
    have "expand hist (tokenize hist (b # rest))
          = expand (copy_back hist (fst ?m) (snd ?m))
              (tokenize (hist @ take (snd ?m) (b # rest)) (drop (snd ?m) (b # rest)))"
      using True bm(1) bm(2) by simp
    also have "\<dots> = Some ((hist @ take (snd ?m) (b # rest)) @ drop (snd ?m) (b # rest))"
      using "2.IH"(1) [OF True] cb by simp
    finally show ?thesis by simp
  next
    case False
    then show ?thesis using "2.IH"(2) by simp
  qed
qed

lemma fits_tokenize: "list_all fits (tokenize hist rest)"
proof (induction hist rest rule: tokenize.induct)
  case (1 hist)
  then show ?case by simp
next
  case (2 hist b rest)
  let ?m = "best_match hist (b # rest)"
  show ?case
  proof (cases "prs_min_match \<le> snd ?m")
    case True
    then have pos: "0 < snd ?m" by (simp add: prs_min_match_def)
    note bm = best_match_sound [OF pos]
    have "fst ?m < 65536" using bm(3) by (simp add: prs_window_def)
    moreover have "snd ?m < 256"
      using bm(4) match_at_le [of hist "b # rest" "fst ?m"] by (simp add: prs_max_match_def)
    ultimately show ?thesis using True "2.IH"(1) by simp
  next
    case False
    then show ?thesis using "2.IH"(2) by simp
  qed
qed


lemma expand_append:
  "expand out (xs @ ys) = (case expand out xs of None \<Rightarrow> None | Some out1 \<Rightarrow> expand out1 ys)"
  by (induction out xs rule: expand.induct) auto

lemma control_bits_bound: "control_bits fs < 2 ^ length fs"
  by (induction fs) auto

lemma control_bits_append: "control_bits (fs @ gs) = control_bits fs + 2 ^ length fs * control_bits gs"
  by (induction fs) (auto simp: algebra_simps)

lemma unat_byte_of_nat: "x < 256 \<Longrightarrow> unat (word_of_nat x :: byte) = x"
  by (simp add: unat_of_nat)

lemma backref_field:
  "d < 65536 \<Longrightarrow>
   unat (word_of_nat (d mod 256) :: byte) + 256 * unat (word_of_nat (d div 256) :: byte) = d"
  by (simp add: unat_byte_of_nat)

lemma decode_literal_step:
  "prs_decode (token_bytes (Literal b) @ inp) (1 + 2 * c) (Suc k) out
   = prs_decode inp c k (out @ [b])"
  by simp

lemma decode_backref_step:
  assumes "d < 65536" and "n < 256" and "d \<noteq> 0" and "d \<le> length out"
  shows "prs_decode (token_bytes (Backref d n) @ inp) (2 * c) (Suc k) out
         = prs_decode inp c k (copy_back out d n)"
proof -
  define lo hi nn :: byte
    where "lo = word_of_nat (d mod 256)" and "hi = word_of_nat (d div 256)"
      and "nn = word_of_nat n"
  have v: "unat lo + 256 * unat hi = d" and w: "unat nn = n"
    unfolding lo_def hi_def nn_def
    using backref_field [OF assms(1)] unat_byte_of_nat [OF assms(2)] by simp_all
  have eq: "token_bytes (Backref d n) @ inp = lo # hi # nn # inp"
    by (simp add: lo_def hi_def nn_def)
  show ?thesis
    unfolding eq prs_decode.simps(2) list.case Let_def v w
    using assms(3,4) by simp
qed

lemma decode_end: "prs_decode (token_bytes (Backref 0 0) @ inp) (2 * m) (Suc k) out = Inr out"
  by simp

lemma decode_group:
  "length g \<le> k \<Longrightarrow> list_all fits g \<Longrightarrow> expand out g = Some out' \<Longrightarrow>
   prs_decode (concat (map token_bytes g) @ inp)
     (control_bits (map token_flag g) + 2 ^ length g * m) k out
   = prs_decode inp m (k - length g) out'"
proof (induction g arbitrary: k out)
  case Nil
  then show ?case by simp
next
  case (Cons t g)
  from Cons.prems(1) obtain k' where k: "k = Suc k'" and len: "length g \<le> k'"
    by (cases k) auto
  let ?c = "control_bits (map token_flag g) + 2 ^ length g * m"
  let ?rest = "concat (map token_bytes g) @ inp"
  have bytes: "concat (map token_bytes (t # g)) @ inp = token_bytes t @ ?rest"
    by simp
  have fg: "list_all fits g" using Cons.prems(2) by simp
  have tail: "k - length (t # g) = k' - length g" using k by simp
  show ?case
  proof (cases t)
    case (Literal b)
    have c: "control_bits (map token_flag (t # g)) + 2 ^ length (t # g) * m = 1 + 2 * ?c"
      using Literal by (simp add: algebra_simps)
    have ex: "expand (out @ [b]) g = Some out'" using Cons.prems(3) Literal by simp
    have "prs_decode (concat (map token_bytes (t # g)) @ inp)
            (control_bits (map token_flag (t # g)) + 2 ^ length (t # g) * m) k out
          = prs_decode (token_bytes t @ ?rest) (1 + 2 * ?c) (Suc k') out"
      unfolding c k bytes by (rule refl)
    also have "\<dots> = prs_decode ?rest ?c k' (out @ [b])"
      unfolding Literal by (rule decode_literal_step)
    also have "\<dots> = prs_decode inp m (k' - length g) out'"
      by (rule Cons.IH [OF len fg ex])
    finally show ?thesis unfolding tail .
  next
    case (Backref d n)
    have c: "control_bits (map token_flag (t # g)) + 2 ^ length (t # g) * m = 2 * ?c"
      using Backref by (simp add: algebra_simps)
    from Cons.prems(2) Backref have d: "d < 65536" and n: "n < 256" by simp_all
    from Cons.prems(3) Backref have d0: "d \<noteq> 0" and dl: "d \<le> length out"
      and ex: "expand (copy_back out d n) g = Some out'"
      by (auto split: if_splits)
    have "prs_decode (concat (map token_bytes (t # g)) @ inp)
            (control_bits (map token_flag (t # g)) + 2 ^ length (t # g) * m) k out
          = prs_decode (token_bytes t @ ?rest) (2 * ?c) (Suc k') out"
      unfolding c k bytes by (rule refl)
    also have "\<dots> = prs_decode ?rest ?c k' (copy_back out d n)"
      unfolding Backref by (rule decode_backref_step [OF d n d0 dl])
    also have "\<dots> = prs_decode inp m (k' - length g) out'"
      by (rule Cons.IH [OF len fg ex])
    finally show ?thesis unfolding tail .
  qed
qed

lemma pack_Nil: "pack [] = []"
  by simp

lemma pack_step:
  "ts \<noteq> [] \<Longrightarrow>
   pack ts = word_of_nat (control_bits (map token_flag (take 8 ts)))
               # concat (map token_bytes (take 8 ts)) @ pack (drop 8 ts)"
  by (subst pack.simps) (simp del: pack.simps)

lemma decode_control_byte:
  "x < 256 \<Longrightarrow> prs_decode (word_of_nat x # inp) c 0 out = prs_decode inp x 8 out"
  by (simp add: unat_byte_of_nat)

lemma decode_pack:
  "list_all fits ts \<Longrightarrow> expand out ts = Some out' \<Longrightarrow>
   prs_decode (pack (ts @ [Backref 0 0])) c 0 out = Inr out'"
proof (induction "length ts" arbitrary: ts out c rule: less_induct)
  case less
  show ?case
  proof (cases "length ts < 8")
    case True
    let ?fl = "map token_flag ts"
    have tk: "take 8 (ts @ [Backref 0 0]) = ts @ [Backref 0 0]"
      and dr: "drop 8 (ts @ [Backref 0 0]) = []" using True by simp_all
    have cb: "control_bits (map token_flag (ts @ [Backref 0 0])) = control_bits ?fl"
      by (simp add: control_bits_append)
    have "control_bits ?fl < 2 ^ length ?fl" by (rule control_bits_bound)
    also have "\<dots> \<le> 2 ^ 8" using True by (intro power_increasing) simp_all
    finally have small: "control_bits ?fl < 256" by simp
    have pk: "pack (ts @ [Backref 0 0])
              = word_of_nat (control_bits ?fl)
                  # concat (map token_bytes ts) @ token_bytes (Backref 0 0) @ []"
      using pack_step [of "ts @ [Backref 0 0]"] unfolding tk dr cb pack_Nil by simp
    from True obtain j where j: "8 - length ts = Suc j" by (cases "8 - length ts") auto
    have "prs_decode (pack (ts @ [Backref 0 0])) c 0 out
          = prs_decode (concat (map token_bytes ts) @ token_bytes (Backref 0 0) @ [])
              (control_bits ?fl + 2 ^ length ts * (2 * 0)) 8 out"
      unfolding pk decode_control_byte [OF small] by simp
    also have "\<dots> = prs_decode (token_bytes (Backref 0 0) @ []) (2 * 0) (8 - length ts) out'"
      using True less.prems by (intro decode_group) simp_all
    also have "\<dots> = Inr out'"
      unfolding j by (rule decode_end)
    finally show ?thesis .
  next
    case False
    let ?g = "take 8 ts"
    let ?fl = "map token_flag ?g"
    have lg: "length ?g = 8" using False by simp
    have tk: "take 8 (ts @ [Backref 0 0]) = ?g"
      and dr: "drop 8 (ts @ [Backref 0 0]) = drop 8 ts @ [Backref 0 0]" using False by simp_all
    have "control_bits ?fl < 2 ^ length ?fl" by (rule control_bits_bound)
    then have small: "control_bits ?fl < 256" using lg by simp
    from less.prems(2) obtain out1 where e1: "expand out ?g = Some out1"
      and e2: "expand out1 (drop 8 ts) = Some out'"
      using expand_append [of out ?g "drop 8 ts"] by (auto split: option.splits)
    have f1: "list_all fits ?g" and f2: "list_all fits (drop 8 ts)"
      using less.prems(1) append_take_drop_id [of 8 ts] list_all_append [of fits ?g "drop 8 ts"]
      by simp_all
    have pk: "pack (ts @ [Backref 0 0])
              = word_of_nat (control_bits ?fl)
                  # concat (map token_bytes ?g) @ pack (drop 8 ts @ [Backref 0 0])"
      using pack_step [of "ts @ [Backref 0 0]"] unfolding tk dr by simp
    have "prs_decode (pack (ts @ [Backref 0 0])) c 0 out
          = prs_decode (concat (map token_bytes ?g) @ pack (drop 8 ts @ [Backref 0 0]))
              (control_bits ?fl + 2 ^ length ?g * 0) 8 out"
      unfolding pk decode_control_byte [OF small] by simp
    also have "\<dots> = prs_decode (pack (drop 8 ts @ [Backref 0 0])) 0 (8 - length ?g) out1"
      using lg f1 e1 by (intro decode_group) simp_all
    also have "\<dots> = prs_decode (pack (drop 8 ts @ [Backref 0 0])) 0 0 out1"
      using lg by simp
    also have "\<dots> = Inr out'"
      using False by (intro less.hyps f2 e2) simp
    finally show ?thesis .
  qed
qed

lemma prs_round_trip: "prs_decompress_buf (prs_compress x) = Inr x"
  unfolding prs_decompress_buf_def prs_compress_def
  using decode_pack [OF fits_tokenize expand_tokenize, of "[]" x 0] by simp


lemma xor_from_involution: "xor_from ks key i (xor_from ks key i bs) = bs"
  by (induction bs arbitrary: i) (simp_all add: xor.assoc)

text \<open>
  C2.  Decompressing what was compressed gives the input back, for every byte sequence
  (the empty one included), for the plain codec and for the keyed one under the same key
  and key schedule.
\<close>

theorem prs_codec_round_trip:
  "prs_decompress_buf (prs_compress x) = Inr x
   \<and> prsd_decompress_buf ks key (prsd_compress ks key x) = Inr x"
  by (simp add: prs_round_trip prsd_decompress_buf_def prsd_compress_def xor_from_involution)

end
